theory Spec2Isabelle
  imports Main "HOL-Library.Word" "HOL-Library.AList"
begin

unbundle bit_operations_syntax

section \<open>Python values used by the integration\<close>

text \<open>
  A Python \<open>float\<close> is an IEEE 754 binary64 value; it is kept as its 64-bit pattern
  (sign, 11 exponent bits, 52 fraction bits). The module does no arithmetic on floats: it
  stores them, hands them on and asks \<open>math.isnan\<close>, which holds exactly of the patterns
  with all exponent bits set and a non-zero fraction.
\<close>

type_synonym pyfloat = "64 word"

definition isnan :: "pyfloat \<Rightarrow> bool" where
  "isnan x \<longleftrightarrow>
     x AND 0x7FF0000000000000 = 0x7FF0000000000000 \<and> x AND 0x000FFFFFFFFFFFFF \<noteq> 0"

datatype error = TypeError | NotImplementedError | OverflowError | ValueError

record timedelta =
  days :: int
  seconds :: int
  microseconds :: int

record datetime =
  year :: nat
  month :: nat
  day :: nat
  hour :: nat
  minute :: nat
  second :: nat

datatype pyval =
    VNone
  | VBool bool
  | VInt int
  | VFloat pyfloat
  | VStr string
  | VTimedelta timedelta
  | VDatetime datetime
  | VDict "(pyval \<times> pyval) list"

section \<open>The wrapped PID object and the library functions the class calls\<close>

text \<open>
  \<open>dvg_pid_controller\<close> is a third-party package. Of its \<open>PID_Controller\<close> objects the
  class reads seven fields; whatever else such an object holds is the extension of the
  record. \<open>Constants\<close> is the package's enumeration of modes and directions.
\<close>

datatype PIDConst = MANUAL | AUTOMATIC | DIRECT | REVERSE

record PID_Controller =
  kp :: pyfloat
  ki :: pyfloat
  kd :: pyfloat
  in_auto :: bool
  last_input :: pyfloat
  output' :: pyfloat
  last_error :: pyfloat

text \<open>
  The functions of other packages that the class calls are parameters of the model:
  \<open>PID\<close> is the constructor \<open>PID_Controller(Kp, Ki, Kd, controller_direction)\<close>,
  \<open>timedelta_kw\<close> is \<open>datetime.timedelta\<close> called with keyword arguments only,
  \<open>str_timedelta\<close> and \<open>str_datetime\<close> are \<open>str\<close> on the two time types.
  The PID constructor is given floats and a direction, as the annotations of \<open>__init__\<close>
  say, and returns an object; the gains' own defaults (1, 0.01, 0) play no part below,
  where the gains are arbitrary.
\<close>

record 'p pylib =
  PID :: "pyfloat \<Rightarrow> pyfloat \<Rightarrow> pyfloat \<Rightarrow> PIDConst \<Rightarrow> 'p PID_Controller_scheme"
  timedelta_kw :: "(string \<times> pyval) list \<Rightarrow> error + timedelta"
  str_timedelta :: "timedelta \<Rightarrow> string"
  str_datetime :: "datetime \<Rightarrow> string"

text \<open>
  A call \<open>f(**x)\<close> unpacks \<open>x\<close> into keyword arguments before \<open>f\<close> runs: \<open>x\<close> must
  be a mapping and each of its keys a string, otherwise the call raises \<open>TypeError\<close>.
\<close>

fun keyword_args :: "(pyval \<times> pyval) list \<Rightarrow> error + (string \<times> pyval) list" where
  "keyword_args [] = Inr []"
| "keyword_args ((VStr k, v) # kvs) =
     (case keyword_args kvs of Inl e \<Rightarrow> Inl e | Inr kw \<Rightarrow> Inr ((k, v) # kw))"
| "keyword_args (_ # kvs) = Inl TypeError"

fun unpack :: "pyval \<Rightarrow> error + (string \<times> pyval) list" where
  "unpack (VDict kvs) = keyword_args kvs"
| "unpack _ = Inl TypeError"

definition timedelta_unpacked :: "'p pylib \<Rightarrow> pyval \<Rightarrow> error + timedelta" where
  "timedelta_unpacked L x =
     (case unpack x of Inl e \<Rightarrow> Inl e | Inr kw \<Rightarrow> timedelta_kw L kw)"

section \<open>PidBaseClass\<close>

text \<open>
  The instance attributes \<open>_pid\<close>, \<open>_attr_cycle_time\<close> and \<open>_attr_last_cycle_start\<close>
  (an identifier cannot start with an underscore here). The last one is \<open>None\<close> until a
  subclass stores the start of a cycle, a \<open>datetime\<close>, as the docstring of
  \<open>_async_pid_cycle\<close> asks. State that subclasses and the \<open>Entity\<close> base class add is the
  extension of the record.
\<close>

record 'p PidBaseClass =
  pid :: "'p PID_Controller_scheme"
  attr_cycle_time :: timedelta
  attr_last_cycle_start :: "datetime option"

definition default_cycle_time :: pyval where
  "default_cycle_time = VStr ''00:00:10''"

definition default_direction :: PIDConst where
  "default_direction = DIRECT"

text \<open>\<open>__init__\<close>: an exception leaves no instance, so the result is an error or the instance.\<close>

definition init ::
  "'p pylib \<Rightarrow> pyfloat \<Rightarrow> pyfloat \<Rightarrow> pyfloat \<Rightarrow> PIDConst \<Rightarrow> pyval \<Rightarrow> error + 'p PidBaseClass"
where
  "init L k_p k_i k_d direction cycle_time =
     (let p = PID L k_p k_i k_d direction in
      case (case cycle_time of
              VTimedelta td \<Rightarrow> Inr td
            | _ \<Rightarrow> timedelta_unpacked L cycle_time) of
        Inl e \<Rightarrow> Inl e
      | Inr td \<Rightarrow> Inr \<lparr>pid = p, attr_cycle_time = td, attr_last_cycle_start = None\<rparr>)"

text \<open>
  Methods and properties take the instance and return their result with the instance as
  they leave it. A method that can raise returns \<open>Inl\<close> of the exception. The result of
  an \<open>async\<close> method is the result of awaiting it.
\<close>

definition cycle_time ::
  "'p pylib \<Rightarrow> ('p, 'a) PidBaseClass_scheme \<Rightarrow> string \<times> ('p, 'a) PidBaseClass_scheme" where
  "cycle_time L s = (str_timedelta L (attr_cycle_time s), s)"

definition last_cycle_start ::
  "'p pylib \<Rightarrow> ('p, 'a) PidBaseClass_scheme \<Rightarrow> string \<times> ('p, 'a) PidBaseClass_scheme" where
  "last_cycle_start L s =
     ((case attr_last_cycle_start s of None \<Rightarrow> ''None'' | Some d \<Rightarrow> str_datetime L d), s)"

definition k_p :: "('p, 'a) PidBaseClass_scheme \<Rightarrow> pyfloat \<times> ('p, 'a) PidBaseClass_scheme" where
  "k_p s = (kp (pid s), s)"

definition k_i :: "('p, 'a) PidBaseClass_scheme \<Rightarrow> pyfloat \<times> ('p, 'a) PidBaseClass_scheme" where
  "k_i s = (ki (pid s), s)"

definition k_d :: "('p, 'a) PidBaseClass_scheme \<Rightarrow> pyfloat \<times> ('p, 'a) PidBaseClass_scheme" where
  "k_d s = (kd (pid s), s)"

definition enable_pid :: "('p, 'a) PidBaseClass_scheme \<Rightarrow> bool \<times> ('p, 'a) PidBaseClass_scheme" where
  "enable_pid s = (in_auto (pid s), s)"

definition async_enable ::
  "('p, 'a) PidBaseClass_scheme \<Rightarrow> bool \<Rightarrow> (error + unit) \<times> ('p, 'a) PidBaseClass_scheme" where
  "async_enable s val = (Inl NotImplementedError, s)"

definition filter_nan ::
  "('p, 'a) PidBaseClass_scheme \<Rightarrow> pyfloat \<Rightarrow> pyfloat option \<times> ('p, 'a) PidBaseClass_scheme" where
  "filter_nan s val = (if isnan val then (None, s) else (Some val, s))"

definition pid_input ::
  "('p, 'a) PidBaseClass_scheme \<Rightarrow> pyfloat option \<times> ('p, 'a) PidBaseClass_scheme" where
  "pid_input s = filter_nan s (last_input (pid s))"

definition pid_output ::
  "('p, 'a) PidBaseClass_scheme \<Rightarrow> pyfloat option \<times> ('p, 'a) PidBaseClass_scheme" where
  "pid_output s = filter_nan s (output' (pid s))"

definition pid_error ::
  "('p, 'a) PidBaseClass_scheme \<Rightarrow> pyfloat option \<times> ('p, 'a) PidBaseClass_scheme" where
  "pid_error s = filter_nan s (last_error (pid s))"

definition async_pid_cycle ::
  "('p, 'a) PidBaseClass_scheme \<Rightarrow> pyval list \<Rightarrow> (error + unit) \<times> ('p, 'a) PidBaseClass_scheme" where
  "async_pid_cycle s args = (Inl NotImplementedError, s)"

text \<open>
  The attribute names come from the module \<open>const\<close> of the integration; they are
  parameters here. A Python \<open>dict\<close> keeps its keys in insertion order and an assignment
  to a key it already has replaces the value in place, which is \<open>AList.update\<close>.
\<close>

record const =
  ATTR_CYCLE_TIME :: string
  ATTR_LAST_CYCLE_START :: string
  ATTR_PID_ENABLE :: string
  ATTR_PID_ERROR :: string
  ATTR_PID_INPUT :: string
  ATTR_PID_KD :: string
  ATTR_PID_KI :: string
  ATTR_PID_KP :: string
  ATTR_PID_OUTPUT :: string

definition attr_names :: "const \<Rightarrow> string list" where
  "attr_names C =
     [ATTR_CYCLE_TIME C, ATTR_PID_KP C, ATTR_PID_KI C, ATTR_PID_KD C, ATTR_PID_INPUT C,
      ATTR_PID_OUTPUT C, ATTR_PID_ERROR C, ATTR_LAST_CYCLE_START C, ATTR_PID_ENABLE C]"

definition float_or_none :: "pyfloat option \<Rightarrow> pyval" where
  "float_or_none x = (case x of None \<Rightarrow> VNone | Some v \<Rightarrow> VFloat v)"

definition datetime_or_none :: "datetime option \<Rightarrow> pyval" where
  "datetime_or_none x = (case x of None \<Rightarrow> VNone | Some d \<Rightarrow> VDatetime d)"

definition pid_state_attributes ::
  "const \<Rightarrow> 'p pylib \<Rightarrow> ('p, 'a) PidBaseClass_scheme \<Rightarrow>
     (string \<times> pyval) list \<times> ('p, 'a) PidBaseClass_scheme" where
  "pid_state_attributes C L s =
     (let attr = [];
          (v, s) = cycle_time L s;
          attr = AList.update (ATTR_CYCLE_TIME C) (VStr v) attr;
          (v, s) = k_p s;
          attr = AList.update (ATTR_PID_KP C) (VFloat v) attr;
          (v, s) = k_i s;
          attr = AList.update (ATTR_PID_KI C) (VFloat v) attr;
          (v, s) = k_d s;
          attr = AList.update (ATTR_PID_KD C) (VFloat v) attr;
          (v, s) = pid_input s;
          attr = AList.update (ATTR_PID_INPUT C) (float_or_none v) attr;
          (v, s) = pid_output s;
          attr = AList.update (ATTR_PID_OUTPUT C) (float_or_none v) attr;
          (v, s) = pid_error s;
          attr = AList.update (ATTR_PID_ERROR C) (float_or_none v) attr;
          attr = AList.update (ATTR_LAST_CYCLE_START C)
                   (datetime_or_none (attr_last_cycle_start s)) attr;
          (v, s) = enable_pid s;
          attr = AList.update (ATTR_PID_ENABLE C) (VBool v) attr
      in (attr, s))"

section \<open>The host framework\<close>

text \<open>
  Home Assistant is not part of the repository. What the module does with it is the
  sequence of calls it makes, so every function that talks to the host returns that
  sequence. The values the host hands back (the cancel function of a timer, the function
  that removes a listener, the outcome of unloading) are fields of \<open>HomeAssistant\<close>;
  cancel and remove functions are opaque and stand as numbers.

  A \<open>callable\<close> is a function of this module passed as a value; the methods among
  them are bound to the entity that passes them.
\<close>

datatype Platform = BINARY_SENSOR | CLIMATE | NUMBER | SENSOR | SWITCH

datatype callable =
    Async_start_pid_cycle
  | Async_enable
  | Async_pid_cycle
  | Async_setup_entry
  | Config_entry_update_listener
  | Async_unload_entry

record ConfigEntry =
  entry_id :: string

record HomeAssistant =
  track_time_interval_result :: "callable \<Rightarrow> timedelta \<Rightarrow> bool \<Rightarrow> nat"
  add_update_listener_result :: "ConfigEntry \<Rightarrow> callable \<Rightarrow> nat"
  unload_platforms_result :: "ConfigEntry \<Rightarrow> Platform list \<Rightarrow> bool"

datatype host_call =
    Async_track_time_interval callable timedelta bool
  | Async_on_remove nat
  | Async_forward_entry_setups ConfigEntry "Platform list"
  | Add_update_listener ConfigEntry callable
  | Async_on_unload ConfigEntry nat
  | Async_reload string
  | Async_unload_platforms ConfigEntry "Platform list"

fun is_timer_registration :: "host_call \<Rightarrow> bool" where
  "is_timer_registration (Async_track_time_interval _ _ _) = True"
| "is_timer_registration _ = False"

definition PLATFORMS :: "Platform list" where
  "PLATFORMS = [NUMBER]"

text \<open>
  \<open>_async_start_pid_cycle\<close>: the argument of \<open>self.async_on_remove\<close> is evaluated first,
  so the timer is registered before its cancel function is handed to the entity.
\<close>

definition async_start_pid_cycle ::
  "HomeAssistant \<Rightarrow> ('p, 'a) PidBaseClass_scheme \<Rightarrow>
     host_call list \<times> ('p, 'a) PidBaseClass_scheme" where
  "async_start_pid_cycle hass s =
     (let interval = attr_cycle_time s;
          cancel = track_time_interval_result hass Async_pid_cycle interval True
      in ([Async_track_time_interval Async_pid_cycle interval True, Async_on_remove cancel], s))"

definition async_setup_entry :: "HomeAssistant \<Rightarrow> ConfigEntry \<Rightarrow> bool \<times> host_call list" where
  "async_setup_entry hass entry =
     (let forwarded = [Async_forward_entry_setups entry PLATFORMS];
          remove = add_update_listener_result hass entry Config_entry_update_listener;
          listening = [Add_update_listener entry Config_entry_update_listener,
                       Async_on_unload entry remove]
      in (True, forwarded @ listening))"

definition config_entry_update_listener ::
  "HomeAssistant \<Rightarrow> ConfigEntry \<Rightarrow> unit \<times> host_call list" where
  "config_entry_update_listener hass entry = ((), [Async_reload (entry_id entry)])"

definition async_unload_entry :: "HomeAssistant \<Rightarrow> ConfigEntry \<Rightarrow> bool \<times> host_call list" where
  "async_unload_entry hass entry =
     (unload_platforms_result hass entry PLATFORMS, [Async_unload_platforms entry PLATFORMS])"

section \<open>Example instances\<close>

text \<open>
  A library instance, a host and some entities on which the theorems below are run. The
  example constructor stores the gains as they come and starts with NaN state; the example
  \<open>timedelta\<close> accepts whole \<open>seconds\<close> of less than a day and nothing else.
\<close>

definition nan :: pyfloat where
  "nan = 0x7FF8000000000000"

definition example_PID :: "pyfloat \<Rightarrow> pyfloat \<Rightarrow> pyfloat \<Rightarrow> PIDConst \<Rightarrow> PID_Controller" where
  "example_PID Kp Ki Kd direction =
     \<lparr>kp = Kp, ki = Ki, kd = Kd, in_auto = False,
      last_input = nan, output' = nan, last_error = nan\<rparr>"

fun example_timedelta_kw :: "(string \<times> pyval) list \<Rightarrow> error + timedelta" where
  "example_timedelta_kw [(k, VInt n)] =
     (if k = ''seconds'' \<and> 0 \<le> n \<and> n < 86400
      then Inr \<lparr>days = 0, seconds = n, microseconds = 0\<rparr> else Inl TypeError)"
| "example_timedelta_kw _ = Inl TypeError"

definition example_lib :: "unit pylib" where
  "example_lib =
     \<lparr>PID = example_PID, timedelta_kw = example_timedelta_kw,
      str_timedelta = (\<lambda>_. ''0:00:10''), str_datetime = (\<lambda>_. ''2024-01-01 00:00:00'')\<rparr>"

definition ten_seconds :: timedelta where
  "ten_seconds = \<lparr>days = 0, seconds = 10, microseconds = 0\<rparr>"

definition example_entity :: "unit PidBaseClass" where
  "example_entity =
     \<lparr>pid = \<lparr>kp = 0x3FF0000000000000, ki = 0x3F847AE147AE147B, kd = 0, in_auto = True,
             last_input = 0x4035000000000000, output' = nan, last_error = 0x3FE0000000000000\<rparr>,
      attr_cycle_time = ten_seconds, attr_last_cycle_start = None\<rparr>"

definition example_const :: const where
  "example_const =
     \<lparr>ATTR_CYCLE_TIME = ''cycle_time'', ATTR_LAST_CYCLE_START = ''last_cycle_start'',
      ATTR_PID_ENABLE = ''pid_enable'', ATTR_PID_ERROR = ''pid_error'',
      ATTR_PID_INPUT = ''pid_input'', ATTR_PID_KD = ''kd'', ATTR_PID_KI = ''ki'',
      ATTR_PID_KP = ''kp'', ATTR_PID_OUTPUT = ''pid_output''\<rparr>"

definition example_hass :: HomeAssistant where
  "example_hass =
     \<lparr>track_time_interval_result = (\<lambda>_ _ _. 7), add_update_listener_result = (\<lambda>_ _. 3),
      unload_platforms_result = (\<lambda>_ ps. ps = [NUMBER])\<rparr>"

definition example_entry :: ConfigEntry where
  "example_entry = \<lparr>entry_id = ''abc123''\<rparr>"

section \<open>NaN filtering\<close>

lemma isnan_nan: "isnan nan"
  by (simp add: isnan_def nan_def)

lemma not_isnan_one: "\<not> isnan 0x3FF0000000000000"
  by (simp add: isnan_def)

lemma not_isnan_infinity: "\<not> isnan 0x7FF0000000000000 \<and> \<not> isnan 0xFFF0000000000000"
  by (simp add: isnan_def)

lemma filter_nan_result:
  "fst (filter_nan s x) = (if isnan x then None else Some x)"
  by (simp add: filter_nan_def)

text \<open>
  C1. Each of the properties \<open>pid_input\<close>, \<open>pid_output\<close> and \<open>pid_error\<close> returns
  \<open>None\<close> when the field of the PID object it reads (\<open>last_input\<close>, \<open>output\<close>,
  \<open>last_error\<close>) is NaN, and that field's value unchanged otherwise.
\<close>

theorem pid_properties_filter_nan:
  "(isnan (last_input (pid s)) \<longrightarrow> fst (pid_input s) = None) \<and>
   (\<not> isnan (last_input (pid s)) \<longrightarrow> fst (pid_input s) = Some (last_input (pid s))) \<and>
   (isnan (output' (pid s)) \<longrightarrow> fst (pid_output s) = None) \<and>
   (\<not> isnan (output' (pid s)) \<longrightarrow> fst (pid_output s) = Some (output' (pid s))) \<and>
   (isnan (last_error (pid s)) \<longrightarrow> fst (pid_error s) = None) \<and>
   (\<not> isnan (last_error (pid s)) \<longrightarrow> fst (pid_error s) = Some (last_error (pid s)))"
  by (simp add: pid_input_def pid_output_def pid_error_def filter_nan_def)

text \<open>
  On the example entity the input and the error are numbers (21.0 and 0.5) and come back as
  they are; the output is NaN and comes back as \<open>None\<close>.
\<close>

theorem pid_properties_filter_nan_witness:
  "\<not> isnan (last_input (pid example_entity)) \<and>
   isnan (output' (pid example_entity)) \<and>
   \<not> isnan (last_error (pid example_entity)) \<and>
   fst (pid_input example_entity) = Some 0x4035000000000000 \<and>
   fst (pid_output example_entity) = None \<and>
   fst (pid_error example_entity) = Some 0x3FE0000000000000"
  using pid_properties_filter_nan [of example_entity]
  by (simp add: example_entity_def nan_def isnan_def)

section \<open>The hooks and the constructor\<close>

lemma async_enable_raises: "fst (async_enable s val) = Inl NotImplementedError"
  by (simp add: async_enable_def)

lemma async_pid_cycle_raises: "fst (async_pid_cycle s args) = Inl NotImplementedError"
  by (simp add: async_pid_cycle_def)

lemma keyword_args_strings:
  "keyword_args kvs = Inr kw \<Longrightarrow>
     map fst kvs = map (VStr \<circ> fst) kw \<and> map snd kvs = map snd kw"
proof (induction kvs arbitrary: kw rule: keyword_args.induct)
  case 1
  then show ?case by simp
next
  case (2 k v kvs)
  then show ?case by (auto split: sum.splits)
qed simp_all

lemma unpack_not_dict: "(\<forall>kvs. x \<noteq> VDict kvs) \<Longrightarrow> unpack x = Inl TypeError"
  by (cases x) simp_all

text \<open>
  C2. Awaiting \<open>async_enable\<close> or \<open>_async_pid_cycle\<close> raises \<open>NotImplementedError\<close>
  on every instance and for every argument. They are not the only operations of the
  class that raise: the constructor, called with \<open>cycle_time\<close> left at its default
  \<open>"00:00:10"\<close>, raises \<open>TypeError\<close>, whatever the gains and the direction.
\<close>

theorem default_construction_raises:
  "init L Kp Ki Kd default_direction default_cycle_time = Inl TypeError \<and>
   fst (async_enable s val) = Inl NotImplementedError \<and>
   fst (async_pid_cycle s args) = Inl NotImplementedError"
  by (simp add: init_def default_cycle_time_def timedelta_unpacked_def async_enable_def
      async_pid_cycle_def)

text \<open>
  C3. The constructor hands \<open>k_p\<close>, \<open>k_i\<close>, \<open>k_d\<close> and \<open>direction\<close> to the
  constructor of the PID object and keeps the object it gets; on every instance the
  properties \<open>k_p\<close>, \<open>k_i\<close> and \<open>k_d\<close> return the gains \<open>kp\<close>, \<open>ki\<close> and
  \<open>kd\<close> stored in that object.
\<close>

theorem init_wires_pid:
  "(init L Kp Ki Kd direction ct = Inr s \<longrightarrow> pid s = PID L Kp Ki Kd direction) \<and>
   fst (k_p t) = kp (pid t) \<and> fst (k_i t) = ki (pid t) \<and> fst (k_d t) = kd (pid t)"
  by (auto simp add: init_def Let_def k_p_def k_i_def k_d_def split: sum.splits)

theorem init_wires_pid_witness:
  "init example_lib 0x3FF0000000000000 0x3F847AE147AE147B 0 DIRECT (VTimedelta ten_seconds)
     = Inr \<lparr>pid = example_PID 0x3FF0000000000000 0x3F847AE147AE147B 0 DIRECT,
            attr_cycle_time = ten_seconds, attr_last_cycle_start = None\<rparr> \<and>
   pid \<lparr>pid = example_PID 0x3FF0000000000000 0x3F847AE147AE147B 0 DIRECT,
            attr_cycle_time = ten_seconds, attr_last_cycle_start = None\<rparr>
     = PID example_lib 0x3FF0000000000000 0x3F847AE147AE147B 0 DIRECT \<and>
   fst (k_p example_entity) = 0x3FF0000000000000 \<and>
   fst (k_i example_entity) = 0x3F847AE147AE147B \<and>
   fst (k_d example_entity) = 0"
  using init_wires_pid [of example_lib "0x3FF0000000000000" "0x3F847AE147AE147B" 0 DIRECT
      "VTimedelta ten_seconds"
      "\<lparr>pid = example_PID 0x3FF0000000000000 0x3F847AE147AE147B 0 DIRECT,
            attr_cycle_time = ten_seconds, attr_last_cycle_start = None\<rparr>" example_entity]
  by (simp add: init_def example_lib_def example_entity_def)

lemma keyword_args_error: "keyword_args kvs = Inl e \<Longrightarrow> e = TypeError"
  by (induction kvs arbitrary: e rule: keyword_args.induct) (auto split: sum.splits)

lemma keyword_args_of_strings:
  "keyword_args (map (\<lambda>(k, v). (VStr k, v)) kw) = Inr kw"
  by (induction kw) auto

text \<open>
  C7. A \<open>cycle_time\<close> that is a \<open>timedelta\<close> is stored as it is. For every other
  argument the constructor evaluates \<open>timedelta(**cycle_time)\<close>, which needs a mapping
  of keyword arguments: a mapping whose keys are strings is handed, as keyword arguments,
  to the library's \<open>timedelta\<close>, whose result or exception is the constructor's; a
  mapping with a key that is not a string, and an argument that is neither a
  \<open>timedelta\<close> nor a mapping, raise \<open>TypeError\<close>, and so does every string, the
  default \<open>"00:00:10"\<close> among them.
\<close>

theorem init_cycle_time:
  "init L Kp Ki Kd direction (VTimedelta td) =
     Inr \<lparr>pid = PID L Kp Ki Kd direction, attr_cycle_time = td, attr_last_cycle_start = None\<rparr> \<and>
   ((\<forall>td. ct \<noteq> VTimedelta td) \<longrightarrow>
      init L Kp Ki Kd direction ct =
        (case timedelta_unpacked L ct of
           Inl e \<Rightarrow> Inl e
         | Inr td \<Rightarrow> Inr \<lparr>pid = PID L Kp Ki Kd direction, attr_cycle_time = td,
                          attr_last_cycle_start = None\<rparr>)) \<and>
   (keyword_args kvs = Inr kw \<longrightarrow>
      timedelta_unpacked L (VDict kvs) = timedelta_kw L kw \<and>
      init L Kp Ki Kd direction (VDict kvs) =
        (case timedelta_kw L kw of
           Inl e \<Rightarrow> Inl e
         | Inr td \<Rightarrow> Inr \<lparr>pid = PID L Kp Ki Kd direction, attr_cycle_time = td,
                          attr_last_cycle_start = None\<rparr>)) \<and>
   ((\<forall>kw. keyword_args kvs \<noteq> Inr kw) \<longrightarrow>
      init L Kp Ki Kd direction (VDict kvs) = Inl TypeError) \<and>
   init L Kp Ki Kd direction (VDict (map (\<lambda>(k, v). (VStr k, v)) kws)) =
     (case timedelta_kw L kws of
        Inl e \<Rightarrow> Inl e
      | Inr td \<Rightarrow> Inr \<lparr>pid = PID L Kp Ki Kd direction, attr_cycle_time = td,
                       attr_last_cycle_start = None\<rparr>) \<and>
   ((\<forall>td. ct \<noteq> VTimedelta td) \<and> (\<forall>kvs. ct \<noteq> VDict kvs) \<longrightarrow>
      timedelta_unpacked L ct = Inl TypeError \<and> init L Kp Ki Kd direction ct = Inl TypeError) \<and>
   init L Kp Ki Kd direction (VStr str) = Inl TypeError \<and>
   init L Kp Ki Kd direction default_cycle_time = Inl TypeError"
proof -
  have bad: "init L Kp Ki Kd direction (VDict kvs) = Inl TypeError"
    if "\<forall>kw. keyword_args kvs \<noteq> Inr kw"
  proof (cases "keyword_args kvs")
    case (Inl e)
    then show ?thesis
      using keyword_args_error [OF Inl] by (simp add: init_def timedelta_unpacked_def)
  next
    case (Inr kw)
    with that show ?thesis by simp
  qed
  have rest: "init L Kp Ki Kd direction (VTimedelta td) =
     Inr \<lparr>pid = PID L Kp Ki Kd direction, attr_cycle_time = td, attr_last_cycle_start = None\<rparr> \<and>
   ((\<forall>td. ct \<noteq> VTimedelta td) \<longrightarrow>
      init L Kp Ki Kd direction ct =
        (case timedelta_unpacked L ct of
           Inl e \<Rightarrow> Inl e
         | Inr td \<Rightarrow> Inr \<lparr>pid = PID L Kp Ki Kd direction, attr_cycle_time = td,
                          attr_last_cycle_start = None\<rparr>)) \<and>
   ((\<forall>td. ct \<noteq> VTimedelta td) \<and> (\<forall>kvs. ct \<noteq> VDict kvs) \<longrightarrow>
      timedelta_unpacked L ct = Inl TypeError \<and> init L Kp Ki Kd direction ct = Inl TypeError) \<and>
   init L Kp Ki Kd direction (VStr str) = Inl TypeError \<and>
   init L Kp Ki Kd direction default_cycle_time = Inl TypeError"
    by (cases ct) (simp_all add: init_def timedelta_unpacked_def default_cycle_time_def)
  have good: "keyword_args kvs = Inr kw \<longrightarrow>
      timedelta_unpacked L (VDict kvs) = timedelta_kw L kw \<and>
      init L Kp Ki Kd direction (VDict kvs) =
        (case timedelta_kw L kw of
           Inl e \<Rightarrow> Inl e
         | Inr td \<Rightarrow> Inr \<lparr>pid = PID L Kp Ki Kd direction, attr_cycle_time = td,
                          attr_last_cycle_start = None\<rparr>)"
    by (simp add: init_def timedelta_unpacked_def)
  have strs: "init L Kp Ki Kd direction (VDict (map (\<lambda>(k, v). (VStr k, v)) kws)) =
     (case timedelta_kw L kws of
        Inl e \<Rightarrow> Inl e
      | Inr td \<Rightarrow> Inr \<lparr>pid = PID L Kp Ki Kd direction, attr_cycle_time = td,
                       attr_last_cycle_start = None\<rparr>)"
    by (simp add: init_def timedelta_unpacked_def keyword_args_of_strings)
  from bad rest good strs show ?thesis by blast
qed

text \<open>
  With the example library: the mapping \<open>{"seconds": 20}\<close> gives an instance with a
  cycle of twenty seconds, as the library's \<open>timedelta\<close> says; \<open>{"foo": 1}\<close> raises
  its \<open>TypeError\<close>; \<open>{1: 20}\<close>, the integer 10 and the string \<open>"00:00:10"\<close> raise
  \<open>TypeError\<close> before the library is called; a \<open>timedelta\<close> of ten seconds is kept.
\<close>

theorem init_cycle_time_witness:
  "keyword_args [(VStr ''seconds'', VInt 20)] = Inr [(''seconds'', VInt 20)] \<and>
   init example_lib 0 0 0 REVERSE (VDict [(VStr ''seconds'', VInt 20)]) =
     Inr \<lparr>pid = example_PID 0 0 0 REVERSE,
          attr_cycle_time = \<lparr>days = 0, seconds = 20, microseconds = 0\<rparr>,
          attr_last_cycle_start = None\<rparr> \<and>
   keyword_args [(VStr ''foo'', VInt 1)] = Inr [(''foo'', VInt 1)] \<and>
   init example_lib 0 0 0 REVERSE (VDict [(VStr ''foo'', VInt 1)]) = Inl TypeError \<and>
   (\<forall>kw. keyword_args [(VInt 1, VInt 20)] \<noteq> Inr kw) \<and>
   init example_lib 0 0 0 REVERSE (VDict [(VInt 1, VInt 20)]) = Inl TypeError \<and>
   (\<forall>td. VInt 10 \<noteq> VTimedelta td) \<and> (\<forall>kvs. VInt 10 \<noteq> VDict kvs) \<and>
   init example_lib 0 0 0 REVERSE (VInt 10) = Inl TypeError \<and>
   init example_lib 0 0 0 REVERSE (VStr ''00:00:10'') = Inl TypeError \<and>
   init example_lib 0 0 0 REVERSE (VTimedelta ten_seconds) =
     Inr \<lparr>pid = example_PID 0 0 0 REVERSE, attr_cycle_time = ten_seconds,
          attr_last_cycle_start = None\<rparr>"
  using init_cycle_time [of example_lib 0 0 0 REVERSE ten_seconds "VInt 10"
      "[(VStr ''seconds'', VInt 20)]" "[(''seconds'', VInt 20)]" "[]" "''00:00:10''"]
    init_cycle_time [of example_lib 0 0 0 REVERSE ten_seconds "VInt 10"
      "[(VStr ''foo'', VInt 1)]" "[(''foo'', VInt 1)]" "[]" "''00:00:10''"]
    init_cycle_time [of example_lib 0 0 0 REVERSE ten_seconds "VInt 10"
      "[(VInt 1, VInt 20)]" "[]" "[]" "''00:00:10''"]
  by (simp add: example_lib_def)

text \<open>
  C8. Right after construction the stored start of the last cycle is \<open>None\<close>, and the
  property \<open>last_cycle_start\<close> returns the string \<open>"None"\<close> of four characters.
\<close>

theorem last_cycle_start_after_init:
  "init L Kp Ki Kd direction ct = Inr s \<longrightarrow>
     attr_last_cycle_start s = None \<and>
     fst (last_cycle_start L s) = ''None'' \<and>
     length (fst (last_cycle_start L s)) = 4"
  by (auto simp add: init_def Let_def last_cycle_start_def split: sum.splits)

theorem last_cycle_start_after_init_witness:
  "init example_lib 0 0 0 DIRECT (VTimedelta ten_seconds) =
     Inr \<lparr>pid = example_PID 0 0 0 DIRECT, attr_cycle_time = ten_seconds,
          attr_last_cycle_start = None\<rparr> \<and>
   fst (last_cycle_start example_lib
          \<lparr>pid = example_PID 0 0 0 DIRECT, attr_cycle_time = ten_seconds,
           attr_last_cycle_start = None\<rparr>) = ''None''"
  using last_cycle_start_after_init [of example_lib 0 0 0 DIRECT "VTimedelta ten_seconds"
      "\<lparr>pid = example_PID 0 0 0 DIRECT, attr_cycle_time = ten_seconds,
           attr_last_cycle_start = None\<rparr>"]
  by (simp add: init_def example_lib_def)

section \<open>The state attributes\<close>

lemma example_const_distinct: "distinct (attr_names example_const)"
  by (simp add: attr_names_def example_const_def)

text \<open>
  C4. \<open>pid_state_attributes\<close> returns a dictionary with exactly nine keys (cycle time,
  Kp, Ki, Kd, input, output, error, last cycle start, enable), each with the value of its
  property: \<open>cycle_time\<close>, \<open>k_p\<close>, \<open>k_i\<close>, \<open>k_d\<close>, \<open>pid_input\<close>, \<open>pid_output\<close>,
  \<open>pid_error\<close>, the stored start of the last cycle, and \<open>enable_pid\<close>, which is the
  \<open>in_auto\<close> flag of the PID object. The nine names are those of the module \<open>const\<close>,
  taken to be pairwise different.
\<close>

theorem pid_state_attributes_nine:
  assumes "distinct (attr_names C)"
  shows "fst (pid_state_attributes C L s) =
     [(ATTR_CYCLE_TIME C, VStr (fst (cycle_time L s))),
      (ATTR_PID_KP C, VFloat (fst (k_p s))),
      (ATTR_PID_KI C, VFloat (fst (k_i s))),
      (ATTR_PID_KD C, VFloat (fst (k_d s))),
      (ATTR_PID_INPUT C, float_or_none (fst (pid_input s))),
      (ATTR_PID_OUTPUT C, float_or_none (fst (pid_output s))),
      (ATTR_PID_ERROR C, float_or_none (fst (pid_error s))),
      (ATTR_LAST_CYCLE_START C, datetime_or_none (attr_last_cycle_start s)),
      (ATTR_PID_ENABLE C, VBool (fst (enable_pid s)))] \<and>
   map fst (fst (pid_state_attributes C L s)) = attr_names C \<and>
   length (fst (pid_state_attributes C L s)) = 9 \<and>
   fst (enable_pid s) = in_auto (pid s)"
  using assms
  by (simp add: pid_state_attributes_def attr_names_def cycle_time_def k_p_def k_i_def k_d_def
      pid_input_def pid_output_def pid_error_def filter_nan_def enable_pid_def)

theorem pid_state_attributes_nine_witness:
  "distinct (attr_names example_const) \<and>
   fst (pid_state_attributes example_const example_lib example_entity) =
     [(''cycle_time'', VStr ''0:00:10''),
      (''kp'', VFloat 0x3FF0000000000000),
      (''ki'', VFloat 0x3F847AE147AE147B),
      (''kd'', VFloat 0),
      (''pid_input'', VFloat 0x4035000000000000),
      (''pid_output'', VNone),
      (''pid_error'', VFloat 0x3FE0000000000000),
      (''last_cycle_start'', VNone),
      (''pid_enable'', VBool True)]"
proof -
  have d: "distinct (attr_names example_const)"
    by (simp add: attr_names_def example_const_def)
  show ?thesis
    using d pid_state_attributes_nine [OF d, of example_lib example_entity]
    by (simp add: example_const_def example_lib_def example_entity_def cycle_time_def k_p_def
        k_i_def k_d_def pid_input_def pid_output_def pid_error_def filter_nan_def enable_pid_def
        float_or_none_def datetime_or_none_def isnan_def nan_def)
qed

text \<open>
  C9. Reading \<open>pid_state_attributes\<close> or any of the properties \<open>cycle_time\<close>,
  \<open>last_cycle_start\<close>, \<open>k_p\<close>, \<open>k_i\<close>, \<open>k_d\<close>, \<open>enable_pid\<close>, \<open>pid_input\<close>,
  \<open>pid_output\<close> and \<open>pid_error\<close> leaves the whole entity as it was: the PID object, the
  cycle interval and the start of the last cycle.
\<close>

theorem reading_leaves_state:
  "snd (pid_state_attributes C L s) = s \<and>
   snd (cycle_time L s) = s \<and>
   snd (last_cycle_start L s) = s \<and>
   snd (k_p s) = s \<and> snd (k_i s) = s \<and> snd (k_d s) = s \<and>
   snd (enable_pid s) = s \<and>
   snd (pid_input s) = s \<and> snd (pid_output s) = s \<and> snd (pid_error s) = s"
  by (simp add: pid_state_attributes_def cycle_time_def last_cycle_start_def k_p_def k_i_def
      k_d_def enable_pid_def pid_input_def pid_output_def pid_error_def filter_nan_def)

section \<open>Calls to the host\<close>

text \<open>
  C5. \<open>_async_start_pid_cycle\<close> makes one call to the interval timer of the host, with
  \<open>_async_pid_cycle\<close> as the callback, the stored cycle interval as the period and
  cancel-on-shutdown set, then registers the cancel function it got for removal with the
  entity. It makes no other call and leaves the entity as it was.
\<close>

theorem start_pid_cycle_registers_timer:
  "fst (async_start_pid_cycle hass s) =
     [Async_track_time_interval Async_pid_cycle (attr_cycle_time s) True,
      Async_on_remove (track_time_interval_result hass Async_pid_cycle (attr_cycle_time s) True)] \<and>
   length (filter is_timer_registration (fst (async_start_pid_cycle hass s))) = 1 \<and>
   snd (async_start_pid_cycle hass s) = s"
  by (simp add: async_start_pid_cycle_def Let_def)

theorem start_pid_cycle_registers_timer_witness:
  "async_start_pid_cycle example_hass example_entity =
     ([Async_track_time_interval Async_pid_cycle ten_seconds True, Async_on_remove 7],
      example_entity)"
  using start_pid_cycle_registers_timer [of example_hass example_entity]
  by (simp add: prod_eq_iff example_hass_def example_entity_def)

text \<open>
  C6. \<open>async_setup_entry\<close> forwards the entry to the platform \<open>NUMBER\<close>, registers
  \<open>config_entry_update_listener\<close> as the update listener of the entry and returns
  \<open>True\<close>; the listener reloads the entry; \<open>async_unload_entry\<close> returns what the
  host's unloading of the platforms returns.
\<close>

theorem setup_and_unload_entry:
  "async_setup_entry hass entry =
     (True,
      [Async_forward_entry_setups entry [NUMBER],
       Add_update_listener entry Config_entry_update_listener,
       Async_on_unload entry (add_update_listener_result hass entry Config_entry_update_listener)]) \<and>
   snd (config_entry_update_listener hass entry) = [Async_reload (entry_id entry)] \<and>
   async_unload_entry hass entry =
     (unload_platforms_result hass entry [NUMBER], [Async_unload_platforms entry [NUMBER]])"
  by (simp add: async_setup_entry_def config_entry_update_listener_def async_unload_entry_def
      PLATFORMS_def Let_def)

theorem setup_and_unload_entry_witness:
  "async_setup_entry example_hass example_entry =
     (True,
      [Async_forward_entry_setups example_entry [NUMBER],
       Add_update_listener example_entry Config_entry_update_listener,
       Async_on_unload example_entry 3]) \<and>
   snd (config_entry_update_listener example_hass example_entry) = [Async_reload ''abc123''] \<and>
   fst (async_unload_entry example_hass example_entry) = True"
  using setup_and_unload_entry [of example_hass example_entry]
  by (simp add: example_hass_def example_entry_def)

end
